theory Spec2Isabelle
  imports Main "HOL-Library.AList"
begin

section \<open>Data model\<close>

text \<open>
  \<open>proto.InstanceConfig\<close>: the instance record.  \<open>Properties\<close> is a Go
  \<open>map[string]string\<close>; \<open>None\<close> is the nil map (reads give the zero value, a write
  panics), \<open>Some ps\<close> an allocated map, kept as an association list.
\<close>

record InstanceConfig =
  UUID :: string
  Type :: string
  Prefix :: string
  Properties :: "(string \<times> string) list option"

text \<open>
  The error values of the code.  \<open>Wrapped msg e\<close> stands for
  \<open>fmt.Errorf("msg ... %s", e)\<close>, \<open>Errorf msg\<close> for a formatted error that wraps
  nothing, \<open>External msg\<close> for an error handed back by a collaborator (file system,
  HTTP client, JSON decoder, database driver).
\<close>

datatype error =
    DuplicateInstanceError string
  | InvalidInstanceError string
  | UnknownInstanceError string
  | UnknownCmdError string
  | Errorf string
  | Wrapped string error
  | External string

text \<open>
  A call either returns a value, returns an error, or panics (a nil pointer dereference
  or a write to a nil map ends the goroutine; nothing in these files recovers it).
\<close>

datatype 'a result = Ok 'a | Err error | Panic string

text \<open>Calls made to the outside world, in the order they are made.\<close>

datatype event =
    FileWrite string
  | FileRemove string
  | HttpGet string
  | HttpPut string
  | MySQLConnect string

text \<open>
  The part of the world the code changes: the files on disk (path to contents) and the
  log of outside calls.
\<close>

record world =
  files :: "string \<rightharpoonup> string"
  trace :: "event list"

text \<open>
  The collaborators the code only calls: the API connector (\<open>pct.APIConnector\<close>),
  the JSON codec, the failures of the file system, the path of a named configuration
  file, and the database behind a DSN.  Each is a fixed function for the duration of a call.
  \<^item> \<open>api_Get key url\<close> is \<open>(code, data, err)\<close> as \<open>api.Get\<close> returns it;
  \<^item> \<open>api_Put key url data\<close> is \<open>(resp, body, err)\<close>, \<open>resp\<close> the status code
    of a non-nil response;
  \<^item> \<open>json_Unmarshal data\<close> decodes into a \<open>*proto.InstanceConfig\<close>: an error, the
    nil pointer (\<open>Inr None\<close>, from the JSON text \<open>null\<close>) or a record;
  \<^item> \<open>mysql_info dsn\<close> is the outcome of connecting to \<open>dsn\<close> and running the
    metadata query: an error or (hostname, distro, version);
  \<^item> \<open>mysql_uptime dsn\<close> is the outcome of reading the restart fingerprint of
    \<open>dsn\<close>.
\<close>

record env =
  EntryLink :: "string \<Rightarrow> string"
  ApiKey :: string
  api_Get :: "string \<Rightarrow> string \<Rightarrow> int \<times> string option \<times> error option"
  api_Put :: "string \<Rightarrow> string \<Rightarrow> string \<Rightarrow> int option \<times> string option \<times> error option"
  json_Unmarshal :: "string \<Rightarrow> error + InstanceConfig option"
  json_Marshal :: "InstanceConfig \<Rightarrow> error + string"
  ConfigFile :: "string \<Rightarrow> string"
  write_error :: "string \<Rightarrow> error option"
  remove_error :: "string \<Rightarrow> error option"
  mysql_info :: "string \<Rightarrow> error + string \<times> string \<times> string"
  mysql_uptime :: "string \<Rightarrow> error + nat"

section \<open>The instance repository (instance/repo.go)\<close>

record Repo =
  configDir :: string
  it :: "string \<rightharpoonup> InstanceConfig"

definition NewRepo :: "string \<Rightarrow> Repo" where
  "NewRepo dir = \<lparr>configDir = dir, it = Map.empty\<rparr>"

text \<open>
  \<open>valid\<close> matches the id against \<open>^[[:xdigit:]]{32}$\<close>.  Go's \<open>$\<close> without the
  multi-line flag matches at the end of the text only, so the whole string is 32
  characters of \<open>[0-9A-Fa-f]\<close>.
\<close>

definition xdigit :: "char \<Rightarrow> bool" where
  "xdigit c = (c \<in> set ''0123456789ABCDEFabcdef'')"

definition valid :: "string \<Rightarrow> bool" where
  "valid uid = (length uid = 32 \<and> list_all xdigit uid)"

definition configName :: "string \<Rightarrow> string" where
  "configName uid = ''instance-'' @ uid"

text \<open>
  Modelled from the spec: \<open>pct.Basedir.WriteConfig\<close>, which \<open>Repo.add\<close> calls, is
  code of package \<open>pct\<close> and not of the files modelled here.  The spec has it write the
  JSON-encoded record to the backing file of the name, and a write failure leave no file
  behind: on failure the files are as before.
\<close>

definition WriteConfig :: "env \<Rightarrow> string \<Rightarrow> InstanceConfig \<Rightarrow> world \<Rightarrow> error option \<times> world" where
  "WriteConfig e name inst w =
     (case json_Marshal e inst of
        Inl err \<Rightarrow> (Some err, w)
      | Inr data \<Rightarrow>
          (let file = ConfigFile e name;
               w1 = w\<lparr>trace := trace w @ [FileWrite file]\<rparr>
           in case write_error e file of
                Some err \<Rightarrow> (Some err, w1)
              | None \<Rightarrow> (None, w1\<lparr>files := (files w)(file \<mapsto> data)\<rparr>)))"

text \<open>
  \<open>os.Remove\<close> of the Go library: fails on a missing file, or as the file system
  decides; otherwise the file is gone.
\<close>

definition os_Remove :: "env \<Rightarrow> string \<Rightarrow> world \<Rightarrow> error option \<times> world" where
  "os_Remove e file w =
     (let w1 = w\<lparr>trace := trace w @ [FileRemove file]\<rparr>
      in if files w file = None then (Some (External ''no such file or directory''), w1)
         else case remove_error e file of
                Some err \<Rightarrow> (Some err, w1)
              | None \<Rightarrow> (None, w1\<lparr>files := (files w)(file := None)\<rparr>))"

text \<open>\<open>Repo.add\<close>, lines 107-124.\<close>

definition Repo_add :: "env \<Rightarrow> InstanceConfig \<Rightarrow> bool \<Rightarrow> Repo \<Rightarrow> world \<Rightarrow> error option \<times> Repo \<times> world" where
  "Repo_add e inst writeToDisk r w =
     (if it r (UUID inst) \<noteq> None then (Some (DuplicateInstanceError (UUID inst)), r, w)
      else if writeToDisk then
        (case WriteConfig e (configName (UUID inst)) inst w of
           (Some err, w') \<Rightarrow> (Some err, r, w')
         | (None, w') \<Rightarrow> (None, r\<lparr>it := (it r)(UUID inst \<mapsto> inst)\<rparr>, w'))
      else (None, r\<lparr>it := (it r)(UUID inst \<mapsto> inst)\<rparr>, w))"

text \<open>\<open>Repo.Add\<close>, lines 97-105: \<open>add\<close> under the registry lock.\<close>

definition Repo_Add :: "env \<Rightarrow> InstanceConfig \<Rightarrow> bool \<Rightarrow> Repo \<Rightarrow> world \<Rightarrow> error option \<times> Repo \<times> world" where
  "Repo_Add e inst writeToDisk r w = Repo_add e inst writeToDisk r w"

text \<open>
  \<open>Repo.get\<close>, lines 136-178.  The fetched record is saved under its own UUID and the
  function calls itself with the same id.
\<close>

function Repo_get :: "env \<Rightarrow> string \<Rightarrow> Repo \<Rightarrow> world \<Rightarrow> InstanceConfig result \<times> Repo \<times> world" where
  "Repo_get e uid r w =
     (if \<not> valid uid then (Err (InvalidInstanceError uid), r, w)
      else case it r uid of
        Some inst \<Rightarrow> (Ok inst, r, w)
      | None \<Rightarrow>
          (let link = EntryLink e ''insts'' in
           if link = [] then (Err (UnknownInstanceError uid), r, w)
           else
             (let url = link @ ''/'' @ uid;
                  w1 = w\<lparr>trace := trace w @ [HttpGet url]\<rparr>
              in case api_Get e (ApiKey e) url of
                   (code, data, Some err) \<Rightarrow>
                      (Err (Wrapped ''Failed to get instance'' err), r, w1)
                 | (code, data, None) \<Rightarrow>
                      if code \<noteq> 200 then
                        (Err (Errorf ''Getting instance returned code, expected 200''), r, w1)
                      else
                        (case data of
                           None \<Rightarrow> (Err (Errorf ''Getting instance did not return data''), r, w1)
                         | Some d \<Rightarrow>
                             (case json_Unmarshal e d of
                                Inl err \<Rightarrow>
                                  (Err (Wrapped ''Failed to unmarshal instance data provided by API'' err), r, w1)
                              | Inr None \<Rightarrow> (Panic ''nil pointer dereference'', r, w1)
                              | Inr (Some inst) \<Rightarrow>
                                  (case Repo_add e inst True r w1 of
                                     (Some err, r', w') \<Rightarrow>
                                        (Err (Wrapped ''Failed to add new instance'' err), r', w')
                                   | (None, r', w') \<Rightarrow> Repo_get e uid r' w'))))))"
  by pat_completeness auto


text \<open>\<open>Repo.Get\<close>, lines 126-134: \<open>get\<close> under the registry lock.\<close>

definition Repo_Get :: "env \<Rightarrow> string \<Rightarrow> Repo \<Rightarrow> world \<Rightarrow> InstanceConfig result \<times> Repo \<times> world" where
  "Repo_Get e uid r w = Repo_get e uid r w"

text \<open>\<open>Repo.Remove\<close>, lines 180-206.\<close>

definition Repo_Remove :: "env \<Rightarrow> string \<Rightarrow> Repo \<Rightarrow> world \<Rightarrow> error option \<times> Repo \<times> world" where
  "Repo_Remove e uid r w =
     (if \<not> valid uid then (Some (InvalidInstanceError uid), r, w)
      else if it r uid = None then (Some (UnknownInstanceError uid), r, w)
      else
        (let file = configDir r @ ''/instance-'' @ uid @ ''.conf''
         in case os_Remove e file w of
              (Some err, w') \<Rightarrow> (Some err, r, w')
            | (None, w') \<Rightarrow> (None, r\<lparr>it := (it r)(uid := None)\<rparr>, w')))"

definition isMySQLConfig :: "InstanceConfig \<Rightarrow> bool" where
  "isMySQLConfig inst = (Type inst = ''MySQL'' \<and> Prefix inst = ''mysql'')"

definition isOSConfig :: "InstanceConfig \<Rightarrow> bool" where
  "isOSConfig inst = (Type inst = ''OS'' \<and> Prefix inst = ''os'')"

text \<open>The number of remote fetches made so far.\<close>

definition fetches :: "world \<Rightarrow> nat" where
  "fetches w = length (filter (\<lambda>ev. case ev of HttpGet u \<Rightarrow> True | _ \<Rightarrow> False) (trace w))"

text \<open>
  How many fetches of \<open>uid\<close> can still end in a successful \<open>add\<close>: one while the
  record the API returns for \<open>uid\<close> is not in the map, none afterwards.
\<close>

definition pending_fetch :: "env \<Rightarrow> string \<Rightarrow> Repo \<Rightarrow> nat" where
  "pending_fetch e uid r =
     (case api_Get e (ApiKey e) (EntryLink e ''insts'' @ ''/'' @ uid) of
        (code, Some d, None) \<Rightarrow>
          (case json_Unmarshal e d of
             Inr (Some inst) \<Rightarrow> (if it r (UUID inst) = None then 1 else 0)
           | _ \<Rightarrow> 0)
      | _ \<Rightarrow> 0)"

section \<open>The restart monitor (mrms/monitor)\<close>

text \<open>
  A channel is a reference: \<open>Chan n\<close> is the \<open>n\<close>-th channel made, \<open>Nil_chan\<close> the nil
  channel (what a lookup of a missing key in \<open>mrmChans\<close> gives).
\<close>

datatype chan = Nil_chan | Chan nat

text \<open>
  Modelled from the spec: the types \<open>Subscribers\<close> and \<open>MysqlInstance\<close> are used by
  the monitor but declared outside the files modelled here.  The spec has a per-target set
  of delivery channels, to which \<open>Add\<close> adds a new channel and from which \<open>Remove\<close>
  takes the given one, and a per-target fingerprint: the baseline is read when the target
  is first watched (a failure is returned to the caller); a tick reads the current
  fingerprint, a failed read counts as no restart, a value different from the baseline
  replaces it and signals every subscribed channel.
\<close>

record MysqlInstance =
  Subscribers :: "chan set"
  lastUptime :: nat

definition NewMysqlInstance :: "env \<Rightarrow> string \<Rightarrow> error + MysqlInstance" where
  "NewMysqlInstance e dsn =
     (case mysql_uptime e dsn of
        Inl err \<Rightarrow> Inl err
      | Inr u \<Rightarrow> Inr \<lparr>Subscribers = {}, lastUptime = u\<rparr>)"

definition Subscribers_Add :: "nat \<Rightarrow> chan set \<Rightarrow> chan \<times> chan set" where
  "Subscribers_Add n subs = (Chan n, insert (Chan n) subs)"

definition Subscribers_Remove :: "chan \<Rightarrow> chan set \<Rightarrow> chan set" where
  "Subscribers_Remove c subs = subs - {c}"

definition Subscribers_Empty :: "chan set \<Rightarrow> bool" where
  "Subscribers_Empty subs = (subs = {})"

definition CheckIfMysqlRestarted :: "env \<Rightarrow> string \<Rightarrow> MysqlInstance \<Rightarrow> bool \<times> MysqlInstance" where
  "CheckIfMysqlRestarted e dsn mi =
     (case mysql_uptime e dsn of
        Inl err \<Rightarrow> (False, mi)
      | Inr u \<Rightarrow> if u \<noteq> lastUptime mi then (True, mi\<lparr>lastUptime := u\<rparr>) else (False, mi))"

text \<open>
  \<open>Monitor\<close>, part 002.  The table \<open>mysqlInstances\<close> is a Go map, kept as an
  association list with one entry per key so that \<open>Check\<close> can range over it (in Go
  the order is not fixed).  \<open>made\<close> counts the channels made so far.
\<close>

record Monitor =
  mysqlInstances :: "(string \<times> MysqlInstance) list"
  made :: nat

definition NewMonitor :: Monitor where
  "NewMonitor = \<lparr>mysqlInstances = [], made = 0\<rparr>"

definition createMysqlInstance :: "env \<Rightarrow> string \<Rightarrow> error + MysqlInstance" where
  "createMysqlInstance e dsn = NewMysqlInstance e dsn"

text \<open>
  The tail of \<open>Monitor.Add\<close>, lines 88-90: the instance is held by pointer, so the new
  channel shows in the table entry.
\<close>

definition subscribe :: "string \<Rightarrow> MysqlInstance \<Rightarrow> Monitor \<Rightarrow> (error + chan) \<times> Monitor" where
  "subscribe dsn mi m =
     (case Subscribers_Add (made m) (Subscribers mi) of
        (c, subs) \<Rightarrow>
          (Inr c, m\<lparr>mysqlInstances := AList.update dsn (mi\<lparr>Subscribers := subs\<rparr>) (mysqlInstances m),
                    made := Suc (made m)\<rparr>))"

text \<open>\<open>Monitor.Add\<close>, lines 74-91.\<close>

definition Monitor_Add :: "env \<Rightarrow> string \<Rightarrow> Monitor \<Rightarrow> (error + chan) \<times> Monitor" where
  "Monitor_Add e dsn m =
     (case map_of (mysqlInstances m) dsn of
        None \<Rightarrow>
          (case createMysqlInstance e dsn of
             Inl err \<Rightarrow> (Inl err, m)
           | Inr mi \<Rightarrow> subscribe dsn mi m)
      | Some mi \<Rightarrow> subscribe dsn mi m)"

text \<open>\<open>Monitor.Remove\<close>, lines 93-103.\<close>

definition Monitor_Remove :: "string \<Rightarrow> chan \<Rightarrow> Monitor \<Rightarrow> Monitor" where
  "Monitor_Remove dsn c m =
     (case map_of (mysqlInstances m) dsn of
        Some mi \<Rightarrow>
          (let mi' = mi\<lparr>Subscribers := Subscribers_Remove c (Subscribers mi)\<rparr>
           in if Subscribers_Empty (Subscribers mi')
              then m\<lparr>mysqlInstances := AList.delete dsn (mysqlInstances m)\<rparr>
              else m\<lparr>mysqlInstances := AList.update dsn mi' (mysqlInstances m)\<rparr>)
      | None \<Rightarrow> m)"

text \<open>
  \<open>Monitor.Check\<close>, lines 105-114: the loop over the table.  Beside the new table it
  gives, for every target it checked, the channels it signalled (none when no restart
  was seen).
\<close>

fun check_each :: "env \<Rightarrow> (string \<times> MysqlInstance) list \<Rightarrow>
    (string \<times> MysqlInstance) list \<times> (string \<times> chan set) list" where
  "check_each e [] = ([], [])"
| "check_each e ((dsn, mi) # rest) =
     (case CheckIfMysqlRestarted e dsn mi of
        (restarted, mi') \<Rightarrow>
          (case check_each e rest of
             (rest', sent) \<Rightarrow>
               ((dsn, mi') # rest',
                (dsn, if restarted then Subscribers mi' else {}) # sent)))"

definition Monitor_Check :: "env \<Rightarrow> Monitor \<Rightarrow> Monitor \<times> (string \<times> chan set) list" where
  "Monitor_Check e m =
     (case check_each e (mysqlInstances m) of
        (tbl, sent) \<Rightarrow> (m\<lparr>mysqlInstances := tbl\<rparr>, sent))"

text \<open>The targets a tick checks.\<close>

definition checked :: "env \<Rightarrow> Monitor \<Rightarrow> string set" where
  "checked e m = fst ` set (snd (Monitor_Check e m))"

text \<open>
  The states of the monitor: what \<open>Add\<close>, \<open>Remove\<close> and the ticks of the polling
  task make of the empty table, whatever the databases answer.
\<close>

inductive reachable :: "Monitor \<Rightarrow> bool" where
  initial: "reachable NewMonitor"
| added: "reachable m \<Longrightarrow> reachable (snd (Monitor_Add e dsn m))"
| removed: "reachable m \<Longrightarrow> reachable (Monitor_Remove dsn c m)"
| ticked: "reachable m \<Longrightarrow> reachable (fst (Monitor_Check e m))"


section \<open>The instance manager (part 004, lines 1-376)\<close>

text \<open>
  \<open>proto.Cmd\<close> and \<open>proto.Reply\<close>: the command envelope and its reply.
  \<open>cmd.Reply(data, err)\<close> carries the data and the error as given; \<open>Error = None\<close>
  is the reply without error.
\<close>

record proto_Cmd =
  Cmd :: string
  Data :: string

record proto_Reply =
  ReplyData :: "InstanceConfig option"
  Error :: "error option"

definition Reply :: "InstanceConfig option \<Rightarrow> error option \<Rightarrow> proto_Reply" where
  "Reply d err = \<lparr>ReplyData = d, Error = err\<rparr>"

text \<open>
  \<open>Manager\<close>: the repository, the restart monitor (the \<open>mrms.Monitor\<close> behind the
  interface is the monitor of part 002) and the channels got from it.
\<close>

record Manager =
  repo :: Repo
  mrm :: Monitor
  mrmChans :: "string \<rightharpoonup> chan"

text \<open>
  Reading \<open>inst.Properties[k]\<close>: the two-value form (\<open>v, ok := ...\<close>) and the
  one-value form, which gives the empty string for a missing key or a nil map.
\<close>

definition prop_lookup :: "InstanceConfig \<Rightarrow> string \<Rightarrow> string option" where
  "prop_lookup inst k = (case Properties inst of None \<Rightarrow> None | Some ps \<Rightarrow> map_of ps k)"

definition prop_get :: "InstanceConfig \<Rightarrow> string \<Rightarrow> string" where
  "prop_get inst k = (case prop_lookup inst k of None \<Rightarrow> [] | Some v \<Rightarrow> v)"

definition chan_of :: "(string \<rightharpoonup> chan) \<Rightarrow> string \<Rightarrow> chan" where
  "chan_of chans k = (case chans k of None \<Rightarrow> Nil_chan | Some c \<Rightarrow> c)"

text \<open>
  \<open>GetMySQLInfo\<close>, lines 276-298: connects to the record's \<open>dsn\<close> property, runs the
  metadata query and stores the three fields in \<open>Properties\<close>.  \<open>Ok\<close> carries the
  record as the call leaves it; on an error the record is as it was.  Storing into a nil
  map panics.
\<close>

definition GetMySQLInfo :: "env \<Rightarrow> InstanceConfig \<Rightarrow> world \<Rightarrow> InstanceConfig result \<times> world" where
  "GetMySQLInfo e inst w =
     (let dsn = prop_get inst ''dsn'';
          w1 = w\<lparr>trace := trace w @ [MySQLConnect dsn]\<rparr>
      in case mysql_info e dsn of
           Inl err \<Rightarrow> (Err err, w1)
         | Inr (hostname, distro, version) \<Rightarrow>
             (case Properties inst of
                None \<Rightarrow> (Panic ''assignment to entry in nil map'', w1)
              | Some ps \<Rightarrow>
                  (Ok (inst\<lparr>Properties :=
                        Some (AList.update ''version'' version
                               (AList.update ''distro'' distro
                                 (AList.update ''hostname'' hostname ps)))\<rparr>), w1)))"

text \<open>\<open>Manager.handleGetInfo\<close>, lines 269-274.\<close>

definition handleGetInfo :: "env \<Rightarrow> InstanceConfig \<Rightarrow> world \<Rightarrow> InstanceConfig result \<times> world" where
  "handleGetInfo e inst w =
     (if \<not> isMySQLConfig inst
      then (Err (Errorf ''Don't know how to get info for instance''), w)
      else GetMySQLInfo e inst w)"

text \<open>\<open>Manager.pushInstanceInfo\<close>, lines 355-376.\<close>

definition pushInstanceInfo :: "env \<Rightarrow> InstanceConfig \<Rightarrow> world \<Rightarrow> error option \<times> world" where
  "pushInstanceInfo e inst w =
     (let uri = EntryLink e ''insts'' @ ''/'' @ UUID inst
      in case json_Marshal e inst of
           Inl err \<Rightarrow> (Some err, w)
         | Inr data \<Rightarrow>
             (let w1 = w\<lparr>trace := trace w @ [HttpPut uri]\<rparr>
              in case api_Put e (ApiKey e) uri data of
                   (resp, body, Some err) \<Rightarrow> (Some err, w1)
                 | (Some code, body, None) \<Rightarrow>
                     if code \<noteq> 200 then (Some (Errorf ''Failed to PUT''), w1) else (None, w1)
                 | (None, body, None) \<Rightarrow> (None, w1)))"

text \<open>
  \<open>Manager.Handle\<close>, case \<open>"Add"\<close>, lines 187-224.  \<open>iit\<close> is a copy of the stored
  record and shares its \<open>Properties\<close> map with it, so what \<open>GetMySQLInfo\<close> stores
  shows in the registry entry too.
\<close>

definition Handle_Add :: "env \<Rightarrow> InstanceConfig \<Rightarrow> Manager \<Rightarrow> world \<Rightarrow> proto_Reply result \<times> Manager \<times> world" where
  "Handle_Add e inst m w =
     (case Repo_Add e inst True (repo m) w of
        (Some err, r1, w1) \<Rightarrow> (Ok (Reply None (Some err)), m\<lparr>repo := r1\<rparr>, w1)
      | (None, r1, w1) \<Rightarrow>
          (case Repo_Get e (UUID inst) r1 w1 of
             (Err err, r2, w2) \<Rightarrow> (Ok (Reply None None), m\<lparr>repo := r2\<rparr>, w2)
           | (Panic p, r2, w2) \<Rightarrow> (Panic p, m\<lparr>repo := r2\<rparr>, w2)
           | (Ok iit, r2, w2) \<Rightarrow>
               if isMySQLConfig iit then
                 (case prop_lookup iit ''dsn'' of
                    None \<Rightarrow> (Ok (Reply None None), m\<lparr>repo := r2\<rparr>, w2)
                  | Some dsn \<Rightarrow>
                      (case Monitor_Add e dsn (mrm m) of
                         (Inl err, mon) \<Rightarrow> (Ok (Reply None None), m\<lparr>repo := r2, mrm := mon\<rparr>, w2)
                       | (Inr ch, mon) \<Rightarrow>
                           (let m1 = m\<lparr>repo := r2, mrm := mon, mrmChans := (mrmChans m)(dsn \<mapsto> ch)\<rparr>
                            in case GetMySQLInfo e iit w2 of
                                 (Err err, w3) \<Rightarrow> (Ok (Reply None None), m1, w3)
                               | (Panic p, w3) \<Rightarrow> (Panic p, m1, w3)
                               | (Ok iit', w3) \<Rightarrow>
                                   (let m2 = m1\<lparr>repo := r2\<lparr>it := (it r2)(UUID iit \<mapsto> iit')\<rparr>\<rparr>
                                    in case pushInstanceInfo e iit' w3 of
                                         (err, w4) \<Rightarrow> (Ok (Reply None None), m2, w4)))))
               else (Ok (Reply None None), m\<lparr>repo := r2\<rparr>, w2)))"

text \<open>
  \<open>Manager.Handle\<close>, case \<open>"Remove"\<close>, lines 225-238.  When \<open>Get\<close> fails, \<open>iit\<close>
  is nil and line 237 reads \<open>iit.UUID\<close>.
\<close>

definition Handle_Remove :: "env \<Rightarrow> InstanceConfig \<Rightarrow> Manager \<Rightarrow> world \<Rightarrow> proto_Reply result \<times> Manager \<times> world" where
  "Handle_Remove e inst m w =
     (case Repo_Get e (UUID inst) (repo m) w of
        (Err err, r1, w1) \<Rightarrow> (Panic ''nil pointer dereference'', m\<lparr>repo := r1\<rparr>, w1)
      | (Panic p, r1, w1) \<Rightarrow> (Panic p, m\<lparr>repo := r1\<rparr>, w1)
      | (Ok iit, r1, w1) \<Rightarrow>
          (let mon = (if isMySQLConfig iit then
                        (case prop_lookup iit ''dns'' of
                           Some dns \<Rightarrow> Monitor_Remove dns (chan_of (mrmChans m) dns) (mrm m)
                         | None \<Rightarrow> mrm m)
                      else mrm m)
           in case Repo_Remove e (UUID iit) r1 w1 of
                (err, r2, w2) \<Rightarrow> (Ok (Reply None err), m\<lparr>repo := r2, mrm := mon\<rparr>, w2)))"

text \<open>\<open>Manager.Handle\<close>, case \<open>"GetInfo"\<close>, lines 239-241.\<close>

definition Handle_GetInfo :: "env \<Rightarrow> InstanceConfig \<Rightarrow> Manager \<Rightarrow> world \<Rightarrow> proto_Reply result \<times> Manager \<times> world" where
  "Handle_GetInfo e inst m w =
     (case handleGetInfo e inst w of
        (Ok inst', w1) \<Rightarrow> (Ok (Reply (Some inst') None), m, w1)
      | (Err err, w1) \<Rightarrow> (Ok (Reply (Some inst) (Some err)), m, w1)
      | (Panic p, w1) \<Rightarrow> (Panic p, m, w1))"

text \<open>
  \<open>Manager.Handle\<close>, lines 177-245.  The payload is decoded into a pointer; each case
  reads through it, so the nil pointer (payload \<open>null\<close>) panics there.
\<close>

definition Handle :: "env \<Rightarrow> proto_Cmd \<Rightarrow> Manager \<Rightarrow> world \<Rightarrow> proto_Reply result \<times> Manager \<times> world" where
  "Handle e cmd m w =
     (case json_Unmarshal e (Data cmd) of
        Inl err \<Rightarrow> (Ok (Reply None (Some err)), m, w)
      | Inr p \<Rightarrow>
          if Cmd cmd = ''Add'' then
            (case p of
               None \<Rightarrow> (Panic ''nil pointer dereference'', m, w)
             | Some inst \<Rightarrow> Handle_Add e inst m w)
          else if Cmd cmd = ''Remove'' then
            (case p of
               None \<Rightarrow> (Panic ''nil pointer dereference'', m, w)
             | Some inst \<Rightarrow> Handle_Remove e inst m w)
          else if Cmd cmd = ''GetInfo'' then
            (case p of
               None \<Rightarrow> (Panic ''nil pointer dereference'', m, w)
             | Some inst \<Rightarrow> Handle_GetInfo e inst m w)
          else (Ok (Reply None (Some (UnknownCmdError (Cmd cmd)))), m, w))"


section \<open>Concrete inputs\<close>

definition id_a :: string where
  "id_a = ''31dd3b7b602849f8871fd3e7acc8c2e3''"

definition id_b :: string where
  "id_b = ''e4b65f107a4caca10e72ac1f1b23e4aa''"

definition inst_a :: InstanceConfig where
  "inst_a = \<lparr>UUID = id_a, Type = ''MySQL'', Prefix = ''mysql'',
             Properties = Some [(''dsn'', ''test:test@localhost/db1'')]\<rparr>"

definition inst_b :: InstanceConfig where
  "inst_b = \<lparr>UUID = id_b, Type = ''OS'', Prefix = ''os'', Properties = None\<rparr>"

text \<open>A record with a malformed id, and a database record without a \<open>dsn\<close> property.\<close>

definition inst_zz :: InstanceConfig where
  "inst_zz = \<lparr>UUID = ''zz'', Type = ''OS'', Prefix = ''os'', Properties = None\<rparr>"

definition inst_nodsn :: InstanceConfig where
  "inst_nodsn = \<lparr>UUID = id_b, Type = ''MySQL'', Prefix = ''mysql'', Properties = Some []\<rparr>"

text \<open>
  A world where everything works: the API has an \<open>insts\<close> link and answers every GET
  with the encoding of \<open>inst_a\<close>; the payloads \<open>A\<close>, \<open>B\<close>, \<open>Z\<close> and \<open>N\<close> decode
  to the four records above; files can be written and removed; every database answers.
\<close>

definition env_ok :: env where
  "env_ok = \<lparr>
     EntryLink = (\<lambda>name. if name = ''insts'' then ''http://localhost/insts'' else []),
     ApiKey = ''123'',
     api_Get = (\<lambda>key url. (200, Some ''A'', None)),
     api_Put = (\<lambda>key url data. (Some 200, None, None)),
     json_Unmarshal = (\<lambda>d. if d = ''A'' then Inr (Some inst_a)
                          else if d = ''B'' then Inr (Some inst_b)
                          else if d = ''Z'' then Inr (Some inst_zz)
                          else if d = ''N'' then Inr (Some inst_nodsn)
                          else Inl (External ''invalid character'')),
     json_Marshal = (\<lambda>inst. Inr (''json of '' @ UUID inst)),
     ConfigFile = (\<lambda>name. ''/config/'' @ name @ ''.conf''),
     write_error = (\<lambda>file. None),
     remove_error = (\<lambda>file. None),
     mysql_info = (\<lambda>dsn. Inr (''db1'', ''MySQL Community Server'', ''5.6.20'')),
     mysql_uptime = (\<lambda>dsn. Inr 10)\<rparr>"

text \<open>The same with a disk that cannot be written, with no \<open>insts\<close> link, and with an
  API that answers with the encoding of \<open>inst_b\<close>.\<close>

definition env_nowrite :: env where
  "env_nowrite = env_ok\<lparr>write_error := (\<lambda>file. Some (External ''permission denied''))\<rparr>"

definition env_nolink :: env where
  "env_nolink = env_ok\<lparr>EntryLink := (\<lambda>name. [])\<rparr>"

definition env_other :: env where
  "env_other = env_ok\<lparr>api_Get := (\<lambda>key url. (200, Some ''B'', None))\<rparr>"

definition repo0 :: Repo where
  "repo0 = NewRepo ''/config''"

definition repo_a :: Repo where
  "repo_a = \<lparr>configDir = ''/config'', it = [id_a \<mapsto> inst_a]\<rparr>"

definition world0 :: world where
  "world0 = \<lparr>files = Map.empty, trace = []\<rparr>"

definition manager0 :: Manager where
  "manager0 = \<lparr>repo = repo0, mrm = NewMonitor, mrmChans = Map.empty\<rparr>"


text \<open>A world where no database answers, and a manager that knows \<open>inst_a\<close>.\<close>

definition env_down :: env where
  "env_down = env_ok\<lparr>mysql_info := (\<lambda>dsn. Inl (External ''connection refused'')),
                      mysql_uptime := (\<lambda>dsn. Inl (External ''connection refused''))\<rparr>"

definition manager_a :: Manager where
  "manager_a = \<lparr>repo = repo_a, mrm = NewMonitor, mrmChans = Map.empty\<rparr>"

section \<open>Termination of the re-read\<close>

lemma add_uses_pending_fetch:
  assumes "(c, Some d, None) = api_Get e (ApiKey e) (EntryLink e ''insts'' @ CHR ''/'' # uid)"
    and "json_Unmarshal e d = Inr (Some inst)"
    and "(None, r', w') = Repo_add e inst True r w1"
  shows "pending_fetch e uid r' < pending_fetch e uid r"
proof -
  from assms(3) have "Repo_add e inst True r w1 = (None, r', w')"
    by simp
  then have "it r (UUID inst) = None" and "it r' (UUID inst) = Some inst"
    by (auto simp: Repo_add_def split: if_splits prod.splits option.splits)
  with assms(1) [symmetric] assms(2) show ?thesis
    by (simp add: pending_fetch_def)
qed

termination Repo_get
  apply (relation "measure (\<lambda>(e, uid, r, w). pending_fetch e uid r)")
   apply simp
  apply clarsimp
  apply (erule (2) add_uses_pending_fetch)
  done

declare Repo_get.simps [simp del]

section \<open>The repository: adding\<close>

lemma WriteConfig_files:
  "WriteConfig e name inst w = (Some err, w') \<Longrightarrow> files w' = files w"
  by (auto simp: WriteConfig_def Let_def split: sum.splits option.splits)

lemma Repo_add_Ok:
  "Repo_add e inst b r w = (None, r', w') \<Longrightarrow>
     it r (UUID inst) = None \<and> r' = r\<lparr>it := (it r)(UUID inst \<mapsto> inst)\<rparr>"
  by (auto simp: Repo_add_def split: if_splits prod.splits option.splits)

lemma Repo_add_duplicate:
  "it r (UUID inst) \<noteq> None \<Longrightarrow>
     Repo_add e inst b r w = (Some (DuplicateInstanceError (UUID inst)), r, w)"
  by (simp add: Repo_add_def)

lemma Repo_add_Some:
  "Repo_add e inst b r w = (Some err, r', w') \<Longrightarrow> r' = r \<and> files w' = files w"
  by (auto simp: Repo_add_def split: if_splits prod.splits option.splits
        dest: WriteConfig_files)

lemma valid_id_a: "valid id_a"
  by (simp add: valid_def xdigit_def id_a_def)

lemma valid_id_b: "valid id_b"
  by (simp add: valid_def xdigit_def id_b_def)

lemma id_a_neq_id_b: "id_a \<noteq> id_b"
  by (simp add: id_a_def id_b_def)

text \<open>
  C6.  When the id of the record is already in the registry map, \<open>Add\<close> fails with the
  Duplicate-instance error for both values of the persist flag, and neither the registry
  nor the world changes: no file is written (the log of outside calls is as before).
\<close>

theorem Add_duplicate:
  "it r (UUID inst) \<noteq> None \<Longrightarrow>
     Repo_Add e inst persist r w = (Some (DuplicateInstanceError (UUID inst)), r, w)"
  by (simp add: Repo_Add_def Repo_add_duplicate)

theorem Add_duplicate_witness:
  "it repo_a (UUID inst_a) \<noteq> None
   \<and> Repo_Add env_ok inst_a True repo_a world0 = (Some (DuplicateInstanceError (UUID inst_a)), repo_a, world0)
   \<and> Repo_Add env_ok inst_a False repo_a world0 = (Some (DuplicateInstanceError (UUID inst_a)), repo_a, world0)"
proof -
  have h: "it repo_a (UUID inst_a) \<noteq> None"
    by (simp add: repo_a_def inst_a_def)
  show ?thesis
    using h Add_duplicate [OF h, of env_ok True world0] Add_duplicate [OF h, of env_ok False world0]
    by simp
qed

text \<open>
  C5.  When \<open>Add\<close> returns an error, for either value of the persist flag, the registry
  is exactly as before the call (so no entry for the id of the record was made) and the
  files are as before the call (so a failed write leaves no backing file behind).
\<close>

theorem Add_error_unchanged:
  "Repo_Add e inst persist r w = (Some err, r', w') \<Longrightarrow>
     r' = r \<and> it r' (UUID inst) = it r (UUID inst) \<and> files w' = files w"
  by (auto simp: Repo_Add_def dest: Repo_add_Some)

theorem Add_error_unchanged_witness:
  "Repo_Add env_nowrite inst_a True repo0 world0 =
     (Some (External ''permission denied''), repo0,
      world0\<lparr>trace := [FileWrite ''/config/instance-31dd3b7b602849f8871fd3e7acc8c2e3.conf'']\<rparr>)
   \<and> it repo0 (UUID inst_a) = None
   \<and> files (world0\<lparr>trace := [FileWrite ''/config/instance-31dd3b7b602849f8871fd3e7acc8c2e3.conf'']\<rparr>)
       = files world0"
proof -
  have h: "Repo_Add env_nowrite inst_a True repo0 world0 =
     (Some (External ''permission denied''), repo0,
      world0\<lparr>trace := [FileWrite ''/config/instance-31dd3b7b602849f8871fd3e7acc8c2e3.conf'']\<rparr>)"
    by (simp add: Repo_Add_def Repo_add_def WriteConfig_def env_nowrite_def env_ok_def
        inst_a_def id_a_def repo0_def NewRepo_def world0_def configName_def)
  show ?thesis
    using h Add_error_unchanged [OF h] by (simp add: repo0_def NewRepo_def)
qed

text \<open>
  C7.  For an id that is not exactly 32 hexadecimal digits, \<open>Get\<close> and \<open>Remove\<close> both
  fail with the Invalid-id error and leave the registry and the world as they were: no
  file is read or written and no request is sent.
\<close>

theorem invalid_id_rejected:
  "\<not> valid uid \<Longrightarrow>
     Repo_Get e uid r w = (Err (InvalidInstanceError uid), r, w)
     \<and> Repo_Remove e uid r w = (Some (InvalidInstanceError uid), r, w)"
  by (simp add: Repo_Get_def Repo_Remove_def Repo_get.simps)

theorem invalid_id_rejected_witness:
  "\<not> valid ''zz''
   \<and> Repo_Get env_ok ''zz'' repo_a world0 = (Err (InvalidInstanceError ''zz''), repo_a, world0)
   \<and> Repo_Remove env_ok ''zz'' repo_a world0 = (Some (InvalidInstanceError ''zz''), repo_a, world0)"
proof -
  have h: "\<not> valid ''zz''"
    by (simp add: valid_def)
  show ?thesis
    using h invalid_id_rejected [OF h, of env_ok repo_a world0] by simp
qed




section \<open>The repository: reading\<close>

lemma Repo_get_hit:
  "valid uid \<Longrightarrow> it r uid = Some inst \<Longrightarrow> Repo_get e uid r w = (Ok inst, r, w)"
  by (simp add: Repo_get.simps)

lemma fetches_append_HttpGet [simp]:
  "fetches (w\<lparr>trace := trace w @ [HttpGet u]\<rparr>) = Suc (fetches w)"
  by (simp add: fetches_def)

lemma fetches_append_FileWrite [simp]:
  "fetches (w\<lparr>trace := trace w @ [FileWrite f]\<rparr>) = fetches w"
  by (simp add: fetches_def)

lemma fetches_files_update [simp]:
  "fetches (w\<lparr>files := fs\<rparr>) = fetches w"
  by (simp add: fetches_def)

lemma WriteConfig_fetches:
  "WriteConfig e name inst w = (x, w') \<Longrightarrow> fetches w' = fetches w"
  by (auto simp: WriteConfig_def Let_def split: sum.splits option.splits)

lemma Repo_add_fetches:
  "Repo_add e inst b r w = (x, r', w') \<Longrightarrow> fetches w' = fetches w"
  by (auto simp: Repo_add_def split: if_splits prod.splits option.splits
        dest: WriteConfig_fetches)

lemma pending_fetch_le: "pending_fetch e uid r \<le> 1"
  by (simp add: pending_fetch_def split: prod.splits option.splits sum.splits)

lemma pending_fetch_added:
  assumes "api_Get e (ApiKey e) (EntryLink e ''insts'' @ ''/'' @ uid) = (c, Some d, None)"
    and "json_Unmarshal e d = Inr (Some inst)"
    and "Repo_add e inst True r w1 = (None, r', w')"
  shows "pending_fetch e uid r = 1" and "pending_fetch e uid r' = 0"
  using assms Repo_add_Ok [OF assms(3)] by (simp_all add: pending_fetch_def)


lemma Repo_get_unfold:
  assumes "Repo_get e uid r w = (res, r', w')"
  shows "(\<exists>d inst r1 w1.
            valid uid \<and> it r uid = None \<and> EntryLink e ''insts'' \<noteq> [] \<and>
            api_Get e (ApiKey e) (EntryLink e ''insts'' @ ''/'' @ uid) = (200, Some d, None) \<and>
            json_Unmarshal e d = Inr (Some inst) \<and>
            Repo_add e inst True r (w\<lparr>trace := trace w @ [HttpGet (EntryLink e ''insts'' @ ''/'' @ uid)]\<rparr>)
              = (None, r1, w1) \<and>
            Repo_get e uid r1 w1 = (res, r', w'))
         \<or> fetches w' \<le> fetches w + 1"
  using assms
  apply (subst (asm) Repo_get.simps)
  apply (auto simp: Let_def split: if_splits option.splits prod.splits sum.splits
      dest: Repo_add_fetches)
  done


lemma Repo_get_settled:
  assumes "pending_fetch e uid r = 0" and "Repo_get e uid r w = (res, r', w')"
  shows "fetches w' \<le> fetches w + 1"
  using Repo_get_unfold [OF assms(2)]
proof (elim disjE exE conjE)
  fix d inst r1 w1
  assume "api_Get e (ApiKey e) (EntryLink e ''insts'' @ ''/'' @ uid) = (200, Some d, None)"
    and "json_Unmarshal e d = Inr (Some inst)"
    and "Repo_add e inst True r (w\<lparr>trace := trace w @ [HttpGet (EntryLink e ''insts'' @ ''/'' @ uid)]\<rparr>)
                = (None, r1, w1)"
  then have "pending_fetch e uid r = 1"
    by (rule pending_fetch_added(1))
  with assms(1) show ?thesis by simp
qed

lemma Repo_get_two_fetches:
  assumes "Repo_get e uid r w = (res, r', w')"
  shows "fetches w' \<le> fetches w + 2"
  using Repo_get_unfold [OF assms]
proof (elim disjE exE conjE)
  fix d inst r1 w1
  assume api: "api_Get e (ApiKey e) (EntryLink e ''insts'' @ ''/'' @ uid) = (200, Some d, None)"
    and dec: "json_Unmarshal e d = Inr (Some inst)"
    and add: "Repo_add e inst True r (w\<lparr>trace := trace w @ [HttpGet (EntryLink e ''insts'' @ ''/'' @ uid)]\<rparr>)
                = (None, r1, w1)"
    and again: "Repo_get e uid r1 w1 = (res, r', w')"
  have "pending_fetch e uid r1 = 0"
    using pending_fetch_added(2) [OF api dec add] .
  then have "fetches w' \<le> fetches w1 + 1"
    using again by (rule Repo_get_settled)
  moreover have "fetches w1 = fetches w + 1"
    using Repo_add_fetches [OF add] by simp
  ultimately show ?thesis by simp
next
  assume "fetches w' \<le> fetches w + 1"
  then show ?thesis by simp
qed

lemma Repo_get_fetch_same:
  assumes "valid uid" and "it r uid = None" and "EntryLink e ''insts'' \<noteq> []"
    and "api_Get e (ApiKey e) (EntryLink e ''insts'' @ ''/'' @ uid) = (200, Some d, None)"
    and "json_Unmarshal e d = Inr (Some inst)"
    and "Repo_add e inst True r (w\<lparr>trace := trace w @ [HttpGet (EntryLink e ''insts'' @ ''/'' @ uid)]\<rparr>)
           = (None, r1, w1)"
    and "UUID inst = uid"
  shows "Repo_get e uid r w = Repo_get e uid r1 w1" and "Repo_get e uid r1 w1 = (Ok inst, r1, w1)"
proof -
  show "Repo_get e uid r w = Repo_get e uid r1 w1"
    using assms(1-6) by (subst Repo_get.simps) simp
  have "it r1 uid = Some inst"
    using Repo_add_Ok [OF assms(6)] assms(7) by simp
  then show "Repo_get e uid r1 w1 = (Ok inst, r1, w1)"
    using assms(1) by (simp add: Repo_get_hit)
qed

lemma Repo_get_fetch_other:
  assumes "valid uid" and "it r uid = None" and "EntryLink e ''insts'' \<noteq> []"
    and "api_Get e (ApiKey e) (EntryLink e ''insts'' @ ''/'' @ uid) = (200, Some d, None)"
    and "json_Unmarshal e d = Inr (Some inst)"
    and "Repo_add e inst True r (w\<lparr>trace := trace w @ [HttpGet (EntryLink e ''insts'' @ ''/'' @ uid)]\<rparr>)
           = (None, r1, w1)"
    and "UUID inst \<noteq> uid"
  shows "Repo_get e uid r w = Repo_get e uid r1 w1"
    and "Repo_get e uid r1 w1 =
          (Err (Wrapped ''Failed to add new instance'' (DuplicateInstanceError (UUID inst))), r1,
           w1\<lparr>trace := trace w1 @ [HttpGet (EntryLink e ''insts'' @ ''/'' @ uid)]\<rparr>)"
proof -
  show "Repo_get e uid r w = Repo_get e uid r1 w1"
    using assms(1-6) by (subst Repo_get.simps) simp
  have r1: "it r1 uid = None" "it r1 (UUID inst) \<noteq> None"
    using Repo_add_Ok [OF assms(6)] assms(2,7) by simp_all
  show "Repo_get e uid r1 w1 =
          (Err (Wrapped ''Failed to add new instance'' (DuplicateInstanceError (UUID inst))), r1,
           w1\<lparr>trace := trace w1 @ [HttpGet (EntryLink e ''insts'' @ ''/'' @ uid)]\<rparr>)"
    using assms(1,3,4,5) r1
    by (subst Repo_get.simps) (simp add: Repo_add_duplicate)
qed


lemma Repo_add_written:
  assumes "it r (UUID inst) = None" and "json_Marshal e inst = Inr data"
    and "write_error e (ConfigFile e (configName (UUID inst))) = None"
  shows "Repo_add e inst True r w =
           (None, r\<lparr>it := (it r)(UUID inst \<mapsto> inst)\<rparr>,
            w\<lparr>trace := trace w @ [FileWrite (ConfigFile e (configName (UUID inst)))],
              files := (files w)(ConfigFile e (configName (UUID inst)) \<mapsto> data)\<rparr>)"
  using assms by (simp add: Repo_add_def WriteConfig_def Let_def)

text \<open>
  C9.  With the remote API a fixed function, \<open>get\<close> is a total function (its recursion
  is shown to end above) and a call makes at most two fetches.  On a cache miss whose
  fetched record is added, \<open>get\<close> calls itself once: when the record's UUID is the id
  asked for, that call finds the record and returns it, with no further fetch; when the
  UUID differs, that call fetches again, its \<open>add\<close> finds the duplicate, and it returns
  that error without calling itself again.
\<close>

theorem get_at_most_two_fetches:
  "(\<exists>res r' w'. Repo_get e uid r w = (res, r', w') \<and> fetches w' \<le> fetches w + 2)
   \<and> (valid uid \<and> it r uid = None \<and> EntryLink e ''insts'' \<noteq> [] \<and>
       api_Get e (ApiKey e) (EntryLink e ''insts'' @ ''/'' @ uid) = (200, Some d, None) \<and>
       json_Unmarshal e d = Inr (Some inst) \<and>
       Repo_add e inst True r (w\<lparr>trace := trace w @ [HttpGet (EntryLink e ''insts'' @ ''/'' @ uid)]\<rparr>)
         = (None, r1, w1) \<longrightarrow>
         Repo_get e uid r w = Repo_get e uid r1 w1 \<and>
         (UUID inst = uid \<longrightarrow> Repo_get e uid r1 w1 = (Ok inst, r1, w1)) \<and>
         (UUID inst \<noteq> uid \<longrightarrow>
            Repo_get e uid r1 w1 =
              (Err (Wrapped ''Failed to add new instance'' (DuplicateInstanceError (UUID inst))), r1,
               w1\<lparr>trace := trace w1 @ [HttpGet (EntryLink e ''insts'' @ ''/'' @ uid)]\<rparr>)))"
proof (intro conjI impI)
  obtain res r' w' where g: "Repo_get e uid r w = (res, r', w')"
    by (cases "Repo_get e uid r w") auto
  then have "fetches w' \<le> fetches w + 2"
    by (rule Repo_get_two_fetches)
  with g show "\<exists>res r' w'. Repo_get e uid r w = (res, r', w') \<and> fetches w' \<le> fetches w + 2"
    by blast
next
  assume h: "valid uid \<and> it r uid = None \<and> EntryLink e ''insts'' \<noteq> [] \<and>
       api_Get e (ApiKey e) (EntryLink e ''insts'' @ ''/'' @ uid) = (200, Some d, None) \<and>
       json_Unmarshal e d = Inr (Some inst) \<and>
       Repo_add e inst True r (w\<lparr>trace := trace w @ [HttpGet (EntryLink e ''insts'' @ ''/'' @ uid)]\<rparr>)
         = (None, r1, w1)"
  then show "Repo_get e uid r w = Repo_get e uid r1 w1"
    by (subst Repo_get.simps) simp
  {
    assume "UUID inst = uid"
    with h show "Repo_get e uid r1 w1 = (Ok inst, r1, w1)"
      by (intro Repo_get_fetch_same(2) [where r = r and w = w and d = d]) simp_all
  }
  {
    assume "UUID inst \<noteq> uid"
    with h show "Repo_get e uid r1 w1 =
              (Err (Wrapped ''Failed to add new instance'' (DuplicateInstanceError (UUID inst))), r1,
               w1\<lparr>trace := trace w1 @ [HttpGet (EntryLink e ''insts'' @ ''/'' @ uid)]\<rparr>)"
      by (intro Repo_get_fetch_other(2) [where r = r and w = w and d = d]) simp_all
  }
qed

theorem get_at_most_two_fetches_witness:
  "valid id_a \<and> it repo0 id_a = None \<and> UUID inst_b \<noteq> id_a
   \<and> Repo_get env_other id_a repo0 world0 =
       (Err (Wrapped ''Failed to add new instance'' (DuplicateInstanceError id_b)),
        repo0\<lparr>it := [id_b \<mapsto> inst_b]\<rparr>,
        \<lparr>files = [''/config/instance-e4b65f107a4caca10e72ac1f1b23e4aa.conf'' \<mapsto> ''json of e4b65f107a4caca10e72ac1f1b23e4aa''],
         trace = [HttpGet ''http://localhost/insts/31dd3b7b602849f8871fd3e7acc8c2e3'',
                  FileWrite ''/config/instance-e4b65f107a4caca10e72ac1f1b23e4aa.conf'',
                  HttpGet ''http://localhost/insts/31dd3b7b602849f8871fd3e7acc8c2e3'']\<rparr>)"
proof -
  let ?url = "EntryLink env_other ''insts'' @ ''/'' @ id_a"
  let ?r1 = "repo0\<lparr>it := [id_b \<mapsto> inst_b]\<rparr>"
  let ?w1 = "\<lparr>files = [''/config/instance-e4b65f107a4caca10e72ac1f1b23e4aa.conf'' \<mapsto> ''json of e4b65f107a4caca10e72ac1f1b23e4aa''],
         trace = [HttpGet ''http://localhost/insts/31dd3b7b602849f8871fd3e7acc8c2e3'',
                  FileWrite ''/config/instance-e4b65f107a4caca10e72ac1f1b23e4aa.conf'']\<rparr>"
  have miss: "it repo0 id_a = None"
    by (simp add: repo0_def NewRepo_def)
  have link: "EntryLink env_other ''insts'' \<noteq> []"
    by (simp add: env_other_def env_ok_def)
  have api: "api_Get env_other (ApiKey env_other) ?url = (200, Some ''B'', None)"
    by (simp add: env_other_def env_ok_def)
  have dec: "json_Unmarshal env_other ''B'' = Inr (Some inst_b)"
    by (simp add: env_other_def env_ok_def)
  have other: "UUID inst_b \<noteq> id_a"
    using id_a_neq_id_b by (simp add: inst_b_def)
  have add: "Repo_add env_other inst_b True repo0 (world0\<lparr>trace := trace world0 @ [HttpGet ?url]\<rparr>)
               = (None, ?r1, ?w1)"
    by (simp add: Repo_add_def WriteConfig_def Let_def env_other_def env_ok_def inst_b_def
        id_a_def id_b_def repo0_def NewRepo_def world0_def configName_def)
  show ?thesis
    using get_at_most_two_fetches [of env_other id_a repo0 world0 "''B''" inst_b ?r1 ?w1]
      valid_id_a miss link api dec other add
    by (simp add: env_other_def env_ok_def inst_b_def id_a_def)
qed


lemma Repo_get_add_fails:
  assumes "valid uid" and "it r uid = None" and "EntryLink e ''insts'' \<noteq> []"
    and "api_Get e (ApiKey e) (EntryLink e ''insts'' @ ''/'' @ uid) = (200, Some d, None)"
    and "json_Unmarshal e d = Inr (Some inst)"
    and "Repo_add e inst True r (w\<lparr>trace := trace w @ [HttpGet (EntryLink e ''insts'' @ ''/'' @ uid)]\<rparr>)
           = (Some err, r', w')"
  shows "Repo_get e uid r w = (Err (Wrapped ''Failed to add new instance'' err), r', w')"
  using assms by (subst Repo_get.simps) simp

text \<open>
  C2, as the claim states it, fails.  The id is well formed and absent, the link is
  there, the GET answers 200 and the body decodes to a record; but (first) the backing
  file cannot be written, or (second) the record carries another UUID than the one asked
  for: \<open>Get\<close> returns an error, not the record.
\<close>

theorem Get_fetch_counterexample:
  "valid id_a \<and> it repo0 id_a = None
   \<and> EntryLink env_nowrite ''insts'' \<noteq> []
   \<and> api_Get env_nowrite (ApiKey env_nowrite) (EntryLink env_nowrite ''insts'' @ ''/'' @ id_a)
       = (200, Some ''A'', None)
   \<and> json_Unmarshal env_nowrite ''A'' = Inr (Some inst_a)
   \<and> Repo_Get env_nowrite id_a repo0 world0 =
       (Err (Wrapped ''Failed to add new instance'' (External ''permission denied'')), repo0,
        \<lparr>files = Map.empty,
         trace = [HttpGet ''http://localhost/insts/31dd3b7b602849f8871fd3e7acc8c2e3'',
                  FileWrite ''/config/instance-31dd3b7b602849f8871fd3e7acc8c2e3.conf'']\<rparr>)
   \<and> EntryLink env_other ''insts'' \<noteq> []
   \<and> api_Get env_other (ApiKey env_other) (EntryLink env_other ''insts'' @ ''/'' @ id_a)
       = (200, Some ''B'', None)
   \<and> json_Unmarshal env_other ''B'' = Inr (Some inst_b)
   \<and> fst (Repo_Get env_other id_a repo0 world0) =
       Err (Wrapped ''Failed to add new instance'' (DuplicateInstanceError id_b))"
proof -
  have miss: "it repo0 id_a = None"
    by (simp add: repo0_def NewRepo_def)
  have link: "EntryLink env_nowrite ''insts'' \<noteq> []"
    by (simp add: env_nowrite_def env_ok_def)
  have api: "api_Get env_nowrite (ApiKey env_nowrite) (EntryLink env_nowrite ''insts'' @ ''/'' @ id_a)
       = (200, Some ''A'', None)"
    by (simp add: env_nowrite_def env_ok_def)
  have dec: "json_Unmarshal env_nowrite ''A'' = Inr (Some inst_a)"
    by (simp add: env_nowrite_def env_ok_def)
  have add: "Repo_add env_nowrite inst_a True repo0
       (world0\<lparr>trace := trace world0 @ [HttpGet (EntryLink env_nowrite ''insts'' @ ''/'' @ id_a)]\<rparr>)
     = (Some (External ''permission denied''), repo0,
        \<lparr>files = Map.empty,
         trace = [HttpGet ''http://localhost/insts/31dd3b7b602849f8871fd3e7acc8c2e3'',
                  FileWrite ''/config/instance-31dd3b7b602849f8871fd3e7acc8c2e3.conf'']\<rparr>)"
    by (simp add: Repo_add_def WriteConfig_def Let_def env_nowrite_def env_ok_def inst_a_def
        id_a_def repo0_def NewRepo_def world0_def configName_def)
  have first: "Repo_Get env_nowrite id_a repo0 world0 =
       (Err (Wrapped ''Failed to add new instance'' (External ''permission denied'')), repo0,
        \<lparr>files = Map.empty,
         trace = [HttpGet ''http://localhost/insts/31dd3b7b602849f8871fd3e7acc8c2e3'',
                  FileWrite ''/config/instance-31dd3b7b602849f8871fd3e7acc8c2e3.conf'']\<rparr>)"
    unfolding Repo_Get_def
    by (rule Repo_get_add_fails [OF valid_id_a miss link api dec add])
  have link2: "EntryLink env_other ''insts'' \<noteq> []"
    by (simp add: env_other_def env_ok_def)
  have api2: "api_Get env_other (ApiKey env_other) (EntryLink env_other ''insts'' @ ''/'' @ id_a)
       = (200, Some ''B'', None)"
    by (simp add: env_other_def env_ok_def)
  have dec2: "json_Unmarshal env_other ''B'' = Inr (Some inst_b)"
    by (simp add: env_other_def env_ok_def)
  have other: "UUID inst_b \<noteq> id_a"
    using id_a_neq_id_b by (simp add: inst_b_def)
  obtain r1 w1 where add2: "Repo_add env_other inst_b True repo0
       (world0\<lparr>trace := trace world0 @ [HttpGet (EntryLink env_other ''insts'' @ ''/'' @ id_a)]\<rparr>)
     = (None, r1, w1)"
    by (simp add: Repo_add_def WriteConfig_def Let_def env_other_def env_ok_def inst_b_def
        repo0_def NewRepo_def)
  have second: "fst (Repo_Get env_other id_a repo0 world0) =
       Err (Wrapped ''Failed to add new instance'' (DuplicateInstanceError id_b))"
    unfolding Repo_Get_def
    using Repo_get_fetch_other [OF valid_id_a miss link2 api2 dec2 add2 other]
    by (simp add: inst_b_def)
  show ?thesis
    using valid_id_a miss link api dec first link2 api2 dec2 second by blast
qed

text \<open>
  C2, amended.  When, beside the hypotheses of the claim, the fetched record carries the
  UUID asked for and its backing file can be written (the record encodes and the write
  does not fail), \<open>Get\<close> makes one fetch, puts the record into the map and its encoding
  into the backing file, and returns the record; a second \<open>Get\<close> of the same id returns
  the same record and leaves the world as it is: no further network call.
\<close>

theorem Get_fetch_and_cache:
  assumes "valid uid" and "it r uid = None" and "EntryLink e ''insts'' \<noteq> []"
    and "api_Get e (ApiKey e) (EntryLink e ''insts'' @ ''/'' @ uid) = (200, Some d, None)"
    and "json_Unmarshal e d = Inr (Some inst)"
    and "UUID inst = uid"
    and "json_Marshal e inst = Inr data"
    and "write_error e (ConfigFile e (configName uid)) = None"
  shows "\<exists>r' w'. Repo_Get e uid r w = (Ok inst, r', w')
           \<and> it r' = (it r)(uid \<mapsto> inst)
           \<and> files w' = (files w)(ConfigFile e (configName uid) \<mapsto> data)
           \<and> fetches w' = fetches w + 1
           \<and> Repo_Get e uid r' w' = (Ok inst, r', w')"
proof -
  let ?w0 = "w\<lparr>trace := trace w @ [HttpGet (EntryLink e ''insts'' @ ''/'' @ uid)]\<rparr>"
  let ?r1 = "r\<lparr>it := (it r)(UUID inst \<mapsto> inst)\<rparr>"
  let ?w1 = "?w0\<lparr>trace := trace ?w0 @ [FileWrite (ConfigFile e (configName (UUID inst)))],
              files := (files ?w0)(ConfigFile e (configName (UUID inst)) \<mapsto> data)\<rparr>"
  have add: "Repo_add e inst True r ?w0 = (None, ?r1, ?w1)"
    using assms(2,6,7,8) by (intro Repo_add_written) simp_all
  have step: "Repo_get e uid r w = Repo_get e uid ?r1 ?w1"
    and hit: "Repo_get e uid ?r1 ?w1 = (Ok inst, ?r1, ?w1)"
    using Repo_get_fetch_same [OF assms(1-5) add assms(6)] by simp_all
  have "Repo_Get e uid r w = (Ok inst, ?r1, ?w1)"
    using step hit by (simp add: Repo_Get_def)
  moreover have "it ?r1 = (it r)(uid \<mapsto> inst)"
    using assms(6) by simp
  moreover have "files ?w1 = (files w)(ConfigFile e (configName uid) \<mapsto> data)"
    using assms(6) by simp
  moreover have "fetches ?w1 = fetches w + 1"
    by (simp add: fetches_def)
  moreover have "Repo_Get e uid ?r1 ?w1 = (Ok inst, ?r1, ?w1)"
    using hit by (simp add: Repo_Get_def)
  ultimately show ?thesis by blast
qed

theorem Get_fetch_and_cache_witness:
  "valid id_a \<and> it repo0 id_a = None \<and> UUID inst_a = id_a
   \<and> (\<exists>r' w'. Repo_Get env_ok id_a repo0 world0 = (Ok inst_a, r', w')
         \<and> it r' = [id_a \<mapsto> inst_a]
         \<and> files w' = [''/config/instance-31dd3b7b602849f8871fd3e7acc8c2e3.conf'' \<mapsto>
                          ''json of 31dd3b7b602849f8871fd3e7acc8c2e3'']
         \<and> fetches w' = 1
         \<and> Repo_Get env_ok id_a r' w' = (Ok inst_a, r', w'))"
proof -
  have miss: "it repo0 id_a = None"
    by (simp add: repo0_def NewRepo_def)
  have link: "EntryLink env_ok ''insts'' \<noteq> []"
    by (simp add: env_ok_def)
  have api: "api_Get env_ok (ApiKey env_ok) (EntryLink env_ok ''insts'' @ ''/'' @ id_a)
       = (200, Some ''A'', None)"
    by (simp add: env_ok_def)
  have dec: "json_Unmarshal env_ok ''A'' = Inr (Some inst_a)"
    by (simp add: env_ok_def)
  have same: "UUID inst_a = id_a"
    by (simp add: inst_a_def)
  have enc: "json_Marshal env_ok inst_a = Inr ''json of 31dd3b7b602849f8871fd3e7acc8c2e3''"
    by (simp add: env_ok_def inst_a_def id_a_def)
  have wr: "write_error env_ok (ConfigFile env_ok (configName id_a)) = None"
    by (simp add: env_ok_def)
  show ?thesis
    using Get_fetch_and_cache [OF valid_id_a miss link api dec same enc wr, of world0]
      valid_id_a miss same
    by (simp add: env_ok_def configName_def id_a_def repo0_def NewRepo_def world0_def
        fetches_def)
qed



section \<open>The restart monitor: the watch table\<close>

lemma subscribe_table:
  "map_of (mysqlInstances (snd (subscribe dsn mi m))) =
     (map_of (mysqlInstances m))(dsn \<mapsto> mi\<lparr>Subscribers := insert (Chan (made m)) (Subscribers mi)\<rparr>)"
  by (simp add: subscribe_def Subscribers_Add_def update_conv')

lemma Monitor_Add_table:
  "map_of (mysqlInstances (snd (Monitor_Add e dsn m))) dsn' = Some mi \<Longrightarrow>
     map_of (mysqlInstances m) dsn' = Some mi \<or> Subscribers mi \<noteq> {}"
  by (auto simp: Monitor_Add_def createMysqlInstance_def subscribe_table
        split: option.splits sum.splits if_splits)

lemma Monitor_Remove_table:
  "map_of (mysqlInstances (Monitor_Remove dsn c m)) dsn' = Some mi \<Longrightarrow>
     map_of (mysqlInstances m) dsn' = Some mi \<or> Subscribers mi \<noteq> {}"
  by (auto simp: Monitor_Remove_def Let_def Subscribers_Empty_def update_conv' delete_conv'
        split: option.splits if_splits)

lemma CheckIfMysqlRestarted_Subscribers:
  "Subscribers (snd (CheckIfMysqlRestarted e dsn mi)) = Subscribers mi"
  by (simp add: CheckIfMysqlRestarted_def split: sum.splits)

lemma check_each_table:
  "map_of (fst (check_each e tbl)) dsn = Some mi' \<Longrightarrow>
     \<exists>mi. map_of tbl dsn = Some mi \<and> Subscribers mi' = Subscribers mi"
proof (induction tbl)
  case Nil
  then show ?case by simp
next
  case (Cons entry tbl)
  obtain d mi where entry: "entry = (d, mi)"
    by (cases entry)
  obtain restarted mi1 where c: "CheckIfMysqlRestarted e d mi = (restarted, mi1)"
    by (cases "CheckIfMysqlRestarted e d mi")
  obtain rest' sent where r: "check_each e tbl = (rest', sent)"
    by (cases "check_each e tbl")
  have subs: "Subscribers mi1 = Subscribers mi"
    using CheckIfMysqlRestarted_Subscribers [of e d mi] c by simp
  show ?case
  proof (cases "dsn = d")
    case True
    then have "mi' = mi1"
      using Cons.prems by (simp add: entry c r)
    then show ?thesis
      using True subs by (simp add: entry)
  next
    case False
    then have "map_of (fst (check_each e tbl)) dsn = Some mi'"
      using Cons.prems by (simp add: entry c r)
    then show ?thesis
      using Cons.IH False by (simp add: entry)
  qed
qed

lemma Monitor_Check_table:
  "map_of (mysqlInstances (fst (Monitor_Check e m))) dsn = Some mi' \<Longrightarrow>
     \<exists>mi. map_of (mysqlInstances m) dsn = Some mi \<and> Subscribers mi' = Subscribers mi"
  using check_each_table [of e "mysqlInstances m" dsn mi']
  by (simp add: Monitor_Check_def split: prod.splits)

lemma reachable_subscribed:
  "reachable m \<Longrightarrow> map_of (mysqlInstances m) dsn = Some mi \<Longrightarrow> Subscribers mi \<noteq> {}"
proof (induction arbitrary: dsn mi rule: reachable.induct)
  case initial
  then show ?case by (simp add: NewMonitor_def)
next
  case (added m e dsn')
  then show ?case using Monitor_Add_table by blast
next
  case (removed m dsn' c)
  then show ?case using Monitor_Remove_table by blast
next
  case (ticked m e)
  then show ?case using Monitor_Check_table by metis
qed

lemma check_each_keys:
  "map fst (snd (check_each e tbl)) = map fst tbl"
proof (induction tbl)
  case Nil
  then show ?case by simp
next
  case (Cons entry tbl)
  obtain dsn mi where entry: "entry = (dsn, mi)"
    by (cases entry)
  obtain restarted mi' where c: "CheckIfMysqlRestarted e dsn mi = (restarted, mi')"
    by (cases "CheckIfMysqlRestarted e dsn mi")
  obtain rest' sent where r: "check_each e tbl = (rest', sent)"
    by (cases "check_each e tbl")
  from Cons.IH r have "map fst sent = map fst tbl"
    by simp
  then show ?case
    by (simp add: entry c r)
qed

lemma checked_iff:
  "dsn \<in> checked e m \<longleftrightarrow> map_of (mysqlInstances m) dsn \<noteq> None"
proof -
  obtain tbl sent where c: "check_each e (mysqlInstances m) = (tbl, sent)"
    by (cases "check_each e (mysqlInstances m)")
  have "map fst sent = map fst (mysqlInstances m)"
    using check_each_keys [of e "mysqlInstances m"] c by simp
  then have "fst ` set sent = fst ` set (mysqlInstances m)"
    by (metis set_map)
  then have "checked e m = fst ` set (mysqlInstances m)"
    by (simp add: checked_def Monitor_Check_def c)
  then show ?thesis
    by (simp add: map_of_eq_None_iff)
qed

lemma Monitor_Remove_last:
  assumes "map_of (mysqlInstances m) dsn = Some mi" and "Subscribers mi = {c}"
  shows "map_of (mysqlInstances (Monitor_Remove dsn c m)) dsn = None"
  using assms
  by (simp add: Monitor_Remove_def Let_def Subscribers_Remove_def Subscribers_Empty_def delete_conv')

lemma Monitor_Remove_other:
  "dsn' \<noteq> dsn \<Longrightarrow>
     map_of (mysqlInstances (Monitor_Remove dsn c m)) dsn' = map_of (mysqlInstances m) dsn'"
  by (simp add: Monitor_Remove_def Let_def update_conv' delete_conv' split: option.splits)

lemma Monitor_Remove_absent:
  "map_of (mysqlInstances m) dsn = None \<Longrightarrow> Monitor_Remove dsn c m = m"
  by (simp add: Monitor_Remove_def)

lemma Monitor_Remove_stranger:
  assumes "map_of (mysqlInstances m) dsn = Some mi" and "c \<notin> Subscribers mi"
    and "Subscribers mi \<noteq> {}"
  shows "Monitor_Remove dsn c m = m"
  using assms
  by (simp add: Monitor_Remove_def Let_def Subscribers_Remove_def Subscribers_Empty_def
      update_triv)

text \<open>
  C3.  In every state reached from the empty table by \<open>Add\<close> and \<open>Remove\<close> (and
  by ticks of the polling task between them): every target in the table has a
  subscriber; a tick checks a target exactly when it is in the table; and removing the
  only subscription of a target takes the target, and with it its fingerprint, out of
  the table, so that no later tick checks it.
\<close>

theorem watched_iff_subscribed:
  "reachable m \<Longrightarrow>
     (\<forall>dsn mi. map_of (mysqlInstances m) dsn = Some mi \<longrightarrow> Subscribers mi \<noteq> {})
     \<and> (\<forall>e dsn. dsn \<in> checked e m \<longleftrightarrow> map_of (mysqlInstances m) dsn \<noteq> None)
     \<and> (\<forall>e dsn c mi. map_of (mysqlInstances m) dsn = Some mi \<and> Subscribers mi = {c} \<longrightarrow>
           map_of (mysqlInstances (Monitor_Remove dsn c m)) dsn = None
           \<and> dsn \<notin> checked e (Monitor_Remove dsn c m))"
  by (auto simp: checked_iff Monitor_Remove_last dest: reachable_subscribed)

theorem watched_iff_subscribed_witness:
  "reachable (snd (Monitor_Add env_ok ''db1'' NewMonitor))
   \<and> map_of (mysqlInstances (snd (Monitor_Add env_ok ''db1'' NewMonitor))) ''db1''
       = Some \<lparr>Subscribers = {Chan 0}, lastUptime = 10\<rparr>
   \<and> ''db1'' \<in> checked env_ok (snd (Monitor_Add env_ok ''db1'' NewMonitor))
   \<and> map_of (mysqlInstances (Monitor_Remove ''db1'' (Chan 0) (snd (Monitor_Add env_ok ''db1'' NewMonitor)))) ''db1''
       = None
   \<and> ''db1'' \<notin> checked env_ok (Monitor_Remove ''db1'' (Chan 0) (snd (Monitor_Add env_ok ''db1'' NewMonitor)))"
proof -
  let ?m = "snd (Monitor_Add env_ok ''db1'' NewMonitor)"
  have r: "reachable ?m"
    by (intro reachable.intros)
  have tbl: "map_of (mysqlInstances ?m) ''db1'' = Some \<lparr>Subscribers = {Chan 0}, lastUptime = 10\<rparr>"
    by (simp add: Monitor_Add_def NewMonitor_def createMysqlInstance_def NewMysqlInstance_def
        subscribe_def Subscribers_Add_def env_ok_def)
  show ?thesis
    using watched_iff_subscribed [OF r] r tbl by simp
qed

text \<open>
  C10.  In every state of the monitor, \<open>Remove\<close> of a target that is not in the table,
  or of a channel that is not among the target's subscribers, gives the state back as it
  was (\<open>Remove\<close> has no error to return); and no \<open>Remove\<close> changes the entry of a
  target other than the one named.
\<close>

theorem Remove_frame:
  "reachable m \<Longrightarrow>
     (map_of (mysqlInstances m) dsn = None \<longrightarrow> Monitor_Remove dsn c m = m)
     \<and> (\<forall>mi. map_of (mysqlInstances m) dsn = Some mi \<and> c \<notin> Subscribers mi \<longrightarrow>
           Monitor_Remove dsn c m = m)
     \<and> (\<forall>dsn'. dsn' \<noteq> dsn \<longrightarrow>
           map_of (mysqlInstances (Monitor_Remove dsn c m)) dsn' = map_of (mysqlInstances m) dsn')"
  by (auto simp: Monitor_Remove_absent Monitor_Remove_other
        intro: Monitor_Remove_stranger dest: reachable_subscribed)

theorem Remove_frame_witness:
  "reachable (snd (Monitor_Add env_ok ''db1'' NewMonitor))
   \<and> map_of (mysqlInstances (snd (Monitor_Add env_ok ''db1'' NewMonitor))) ''db2'' = None
   \<and> Monitor_Remove ''db2'' (Chan 0) (snd (Monitor_Add env_ok ''db1'' NewMonitor))
       = snd (Monitor_Add env_ok ''db1'' NewMonitor)
   \<and> Chan 7 \<notin> Subscribers \<lparr>Subscribers = {Chan 0}, lastUptime = 10\<rparr>
   \<and> Monitor_Remove ''db1'' (Chan 7) (snd (Monitor_Add env_ok ''db1'' NewMonitor))
       = snd (Monitor_Add env_ok ''db1'' NewMonitor)
   \<and> Monitor_Remove ''db1'' Nil_chan (snd (Monitor_Add env_ok ''db1'' NewMonitor))
       = snd (Monitor_Add env_ok ''db1'' NewMonitor)"
proof -
  let ?m = "snd (Monitor_Add env_ok ''db1'' NewMonitor)"
  have r: "reachable ?m"
    by (intro reachable.intros)
  have tbl: "map_of (mysqlInstances ?m) ''db1'' = Some \<lparr>Subscribers = {Chan 0}, lastUptime = 10\<rparr>"
    by (simp add: Monitor_Add_def NewMonitor_def createMysqlInstance_def NewMysqlInstance_def
        subscribe_def Subscribers_Add_def env_ok_def)
  have none: "map_of (mysqlInstances ?m) ''db2'' = None"
    by (simp add: Monitor_Add_def NewMonitor_def createMysqlInstance_def NewMysqlInstance_def
        subscribe_def Subscribers_Add_def env_ok_def)
  show ?thesis
    using Remove_frame [OF r, of "''db2''" "Chan 0"] Remove_frame [OF r, of "''db1''" "Chan 7"]
      Remove_frame [OF r, of "''db1''" Nil_chan] r tbl none
    by simp
qed




section \<open>The manager: commands\<close>

lemma Repo_get_invalid:
  "\<not> valid uid \<Longrightarrow> Repo_get e uid r w = (Err (InvalidInstanceError uid), r, w)"
  by (simp add: Repo_get.simps)

lemma Repo_get_nolink:
  "valid uid \<Longrightarrow> it r uid = None \<Longrightarrow> EntryLink e ''insts'' = [] \<Longrightarrow>
     Repo_get e uid r w = (Err (UnknownInstanceError uid), r, w)"
  by (simp add: Repo_get.simps)

lemma Repo_Get_present:
  assumes "it r uid = Some inst"
  shows "Repo_Get e uid r w = (if valid uid then Ok inst else Err (InvalidInstanceError uid), r, w)"
  using assms by (simp add: Repo_Get_def Repo_get_hit Repo_get_invalid)

lemma GetMySQLInfo_with_dsn:
  "prop_lookup inst k = Some v \<Longrightarrow> fst (GetMySQLInfo e inst w) \<noteq> Panic p"
  by (auto simp: GetMySQLInfo_def prop_lookup_def Let_def split: option.splits sum.splits)

lemma Handle_Add_added:
  assumes "Repo_Add e inst True (repo m) w = (None, r1, w1)"
  shows "fst (Handle_Add e inst m w) = Ok (Reply None None)"
proof -
  have "it r1 (UUID inst) = Some inst"
    using assms Repo_add_Ok [of e inst True "repo m" w r1 w1] by (simp add: Repo_Add_def)
  then have get: "Repo_Get e (UUID inst) r1 w1 =
      (if valid (UUID inst) then Ok inst else Err (InvalidInstanceError (UUID inst)), r1, w1)"
    by (rule Repo_Get_present)
  show ?thesis
  proof (cases "valid (UUID inst) \<and> isMySQLConfig inst")
    case False
    then show ?thesis
      using assms get by (auto simp: Handle_Add_def)
  next
    case True
    show ?thesis
    proof (cases "prop_lookup inst ''dsn''")
      case None
      then show ?thesis
        using assms get True by (simp add: Handle_Add_def)
    next
      case (Some dsn)
      obtain res mon where add: "Monitor_Add e dsn (mrm m) = (res, mon)"
        by (cases "Monitor_Add e dsn (mrm m)")
      obtain info w3 where info: "GetMySQLInfo e inst w1 = (info, w3)"
        by (cases "GetMySQLInfo e inst w1")
      have "\<forall>p. info \<noteq> Panic p"
        using GetMySQLInfo_with_dsn [OF Some, of e w1] info by simp
      then show ?thesis
        using assms get True Some add info
        by (cases res; cases info) (simp_all add: Handle_Add_def Let_def split: prod.splits)
    qed
  qed
qed

text \<open>
  C8.  For an \<open>Add\<close> command whose payload decodes to a record, \<open>Handle\<close> returns a
  reply (it does not panic), and the error of the reply is the error of
  \<open>InstanceStore.Add\<close>: the reply has an error exactly when \<open>Add\<close> fails, and once
  \<open>Add\<close> has succeeded the reply has none, whatever the re-fetch, the monitor, the
  metadata probe and the push do.
\<close>

theorem Handle_Add_reply:
  assumes "Cmd cmd = ''Add''" and "json_Unmarshal e (Data cmd) = Inr (Some inst)"
  shows "\<exists>reply. fst (Handle e cmd m w) = Ok reply
           \<and> Error reply = fst (Repo_Add e inst True (repo m) w)
           \<and> (Error reply \<noteq> None \<longleftrightarrow> fst (Repo_Add e inst True (repo m) w) \<noteq> None)"
proof -
  obtain err r1 w1 where add: "Repo_Add e inst True (repo m) w = (err, r1, w1)"
    by (cases "Repo_Add e inst True (repo m) w")
  have h: "Handle e cmd m w = Handle_Add e inst m w"
    using assms by (simp add: Handle_def)
  show ?thesis
  proof (cases err)
    case None
    then have "fst (Handle e cmd m w) = Ok (Reply None None)"
      using add h Handle_Add_added by simp
    then show ?thesis
      using add None by (simp add: Reply_def)
  next
    case (Some x)
    then have "fst (Handle e cmd m w) = Ok (Reply None (Some x))"
      using add h by (simp add: Handle_Add_def)
    then show ?thesis
      using add Some by (simp add: Reply_def)
  qed
qed


theorem Handle_Add_reply_witness:
  "Cmd \<lparr>Cmd = ''Add'', Data = ''A''\<rparr> = ''Add''
   \<and> json_Unmarshal env_down ''A'' = Inr (Some inst_a)
   \<and> fst (Repo_Add env_down inst_a True (repo manager0) world0) = None
   \<and> (\<exists>reply. fst (Handle env_down \<lparr>Cmd = ''Add'', Data = ''A''\<rparr> manager0 world0) = Ok reply
         \<and> Error reply = None)
   \<and> fst (Repo_Add env_down inst_a True (repo manager_a) world0) = Some (DuplicateInstanceError id_a)
   \<and> (\<exists>reply. fst (Handle env_down \<lparr>Cmd = ''Add'', Data = ''A''\<rparr> manager_a world0) = Ok reply
         \<and> Error reply = Some (DuplicateInstanceError id_a))"
proof -
  have c: "Cmd \<lparr>Cmd = ''Add'', Data = ''A''\<rparr> = ''Add''"
    by simp
  have d: "json_Unmarshal env_down (Data \<lparr>Cmd = ''Add'', Data = ''A''\<rparr>) = Inr (Some inst_a)"
    by (simp add: env_down_def env_ok_def)
  have ok: "fst (Repo_Add env_down inst_a True (repo manager0) world0) = None"
    by (simp add: Repo_Add_def Repo_add_def WriteConfig_def Let_def env_down_def env_ok_def
        manager0_def repo0_def NewRepo_def inst_a_def)
  have dup: "fst (Repo_Add env_down inst_a True (repo manager_a) world0)
               = Some (DuplicateInstanceError id_a)"
    by (simp add: Repo_Add_def Repo_add_def manager_a_def repo_a_def inst_a_def)
  show ?thesis
    using Handle_Add_reply [OF c d, of manager0 world0] Handle_Add_reply [OF c d, of manager_a world0]
      d ok dup
    by auto
qed

lemma Handle_Remove_Get_fails:
  assumes "Cmd cmd = ''Remove''" and "json_Unmarshal e (Data cmd) = Inr (Some inst)"
    and "fst (Repo_Get e (UUID inst) (repo m) w) = Err err"
  shows "fst (Handle e cmd m w) = Panic ''nil pointer dereference''"
proof -
  obtain r1 w1 where "Repo_Get e (UUID inst) (repo m) w = (Err err, r1, w1)"
    using assms(3) by (cases "Repo_Get e (UUID inst) (repo m) w") auto
  then show ?thesis
    using assms(1,2) by (simp add: Handle_def Handle_Remove_def)
qed

text \<open>
  C1.  The code does not do what the claim says.  A \<open>Remove\<close> command for a record
  with a malformed id (payload \<open>Z\<close>), and one for a well-formed id that is neither in
  the registry nor resolvable (payload \<open>A\<close>, no \<open>insts\<close> link): \<open>Repo.Remove\<close> of
  the id would return Invalid-id, respectively Unknown-instance, but \<open>Handle\<close> does
  not get there; after the failed \<open>Get\<close> it reads the UUID through the nil pointer and
  panics (as it does after every failed \<open>Get\<close>, by the lemma above).
\<close>

theorem Handle_Remove_unresolved_panics:
  "json_Unmarshal env_ok ''Z'' = Inr (Some inst_zz)
   \<and> fst (Repo_Remove env_ok (UUID inst_zz) (repo manager0) world0) = Some (InvalidInstanceError ''zz'')
   \<and> fst (Handle env_ok \<lparr>Cmd = ''Remove'', Data = ''Z''\<rparr> manager0 world0)
       = Panic ''nil pointer dereference''
   \<and> json_Unmarshal env_nolink ''A'' = Inr (Some inst_a)
   \<and> valid (UUID inst_a) \<and> it (repo manager0) (UUID inst_a) = None
   \<and> EntryLink env_nolink ''insts'' = []
   \<and> fst (Repo_Remove env_nolink (UUID inst_a) (repo manager0) world0) = Some (UnknownInstanceError id_a)
   \<and> fst (Handle env_nolink \<lparr>Cmd = ''Remove'', Data = ''A''\<rparr> manager0 world0)
       = Panic ''nil pointer dereference''"
proof -
  have bad: "\<not> valid ''zz''"
    by (simp add: valid_def)
  have miss: "it repo0 id_a = None"
    by (simp add: repo0_def NewRepo_def)
  have nolink: "EntryLink env_nolink ''insts'' = []"
    by (simp add: env_nolink_def env_ok_def)
  have z: "fst (Handle env_ok \<lparr>Cmd = ''Remove'', Data = ''Z''\<rparr> manager0 world0)
       = Panic ''nil pointer dereference''"
    using bad
    by (simp add: Handle_def Handle_Remove_def Repo_Get_def Repo_get_invalid env_ok_def
        inst_zz_def)
  have a: "fst (Handle env_nolink \<lparr>Cmd = ''Remove'', Data = ''A''\<rparr> manager0 world0)
       = Panic ''nil pointer dereference''"
    using Repo_get_nolink [OF valid_id_a miss nolink]
    by (simp add: Handle_def Handle_Remove_def Repo_Get_def env_nolink_def env_ok_def
        inst_a_def manager0_def)
  show ?thesis
    using bad miss nolink z a valid_id_a
    by (simp add: Repo_Remove_def manager0_def inst_zz_def inst_a_def env_ok_def env_nolink_def)
qed

text \<open>
  What holds of \<open>GetInfo\<close> on the code: a record that is not of database type gets an
  error reply without any call to the outside; no \<open>GetInfo\<close> changes the manager
  (registry, monitor, channels); and for a record of database type the probe is always
  attempted, against the \<open>dsn\<close> property or, when there is none, the empty string.
\<close>

lemma Handle_GetInfo_not_database:
  assumes "Cmd cmd = ''GetInfo''" and "json_Unmarshal e (Data cmd) = Inr (Some inst)"
    and "\<not> isMySQLConfig inst"
  shows "Handle e cmd m w =
           (Ok (Reply (Some inst) (Some (Errorf ''Don't know how to get info for instance''))), m, w)"
  using assms by (simp add: Handle_def Handle_GetInfo_def handleGetInfo_def)

lemma Handle_GetInfo_manager:
  assumes "Cmd cmd = ''GetInfo''"
  shows "fst (snd (Handle e cmd m w)) = m"
  using assms
  by (auto simp: Handle_def Handle_GetInfo_def split: sum.splits option.splits prod.splits
      result.splits)

lemma Handle_GetInfo_database_probes:
  assumes "Cmd cmd = ''GetInfo''" and "json_Unmarshal e (Data cmd) = Inr (Some inst)"
    and "isMySQLConfig inst"
  shows "trace (snd (snd (Handle e cmd m w))) = trace w @ [MySQLConnect (prop_get inst ''dsn'')]"
  using assms
  by (auto simp: Handle_def Handle_GetInfo_def handleGetInfo_def GetMySQLInfo_def Let_def
      split: sum.splits option.splits prod.splits result.splits)

text \<open>
  C4.  The code does not do what the claim says for a database record without a
  connection string.  The payload \<open>N\<close> decodes to a record of type MySQL with no
  \<open>dsn\<close> property: \<open>Handle\<close> runs the metadata probe against the empty DSN.  Where
  that database answers, the reply carries the refreshed record and no error; where it
  does not, the error of the reply is the one of the connection attempt.
\<close>

theorem Handle_GetInfo_without_dsn_probes:
  "json_Unmarshal env_ok ''N'' = Inr (Some inst_nodsn)
   \<and> isMySQLConfig inst_nodsn
   \<and> prop_lookup inst_nodsn ''dsn'' = None
   \<and> Handle env_ok \<lparr>Cmd = ''GetInfo'', Data = ''N''\<rparr> manager0 world0 =
       (Ok (Reply (Some (inst_nodsn\<lparr>Properties :=
                           Some [(''hostname'', ''db1''), (''distro'', ''MySQL Community Server''),
                                 (''version'', ''5.6.20'')]\<rparr>)) None),
        manager0, world0\<lparr>trace := [MySQLConnect []]\<rparr>)
   \<and> Handle env_down \<lparr>Cmd = ''GetInfo'', Data = ''N''\<rparr> manager0 world0 =
       (Ok (Reply (Some inst_nodsn) (Some (External ''connection refused''))),
        manager0, world0\<lparr>trace := [MySQLConnect []]\<rparr>)"
  by (simp add: Handle_def Handle_GetInfo_def handleGetInfo_def GetMySQLInfo_def isMySQLConfig_def
      prop_get_def prop_lookup_def Let_def env_down_def env_ok_def inst_nodsn_def world0_def)

end
